theory Spec2Isabelle
  imports Main "HOL-Library.Word"
begin

section \<open>The constrained-planning demo driver (demos/ConstrainedPlanning.cpp)\<close>

text \<open>
  The driver parses its command line, builds an atlas-based or a projection-based state
  space around a constraint, runs a planner and writes the result to the terminal and to
  files. Everything it calls (problem and planner parsing, the state spaces, the planner)
  is declared in \<^verbatim>\<open>ConstrainedPlanningCommon.h\<close> and the planning library; those parts are
  parameters of the model, collected in the record \<open>env\<close>. The model follows \<open>main\<close>
  statement by statement and records what the process shows to its environment: the
  items streamed to \<open>std::cout\<close>, the files opened for writing with what was streamed to
  them, the calls of \<open>planner->solve\<close>, and how the process ends.

  Calls that only configure the library (the setters of the state space, the bounds, the
  anchor charts, the start and goal states, \<open>setup\<close>, \<open>freeState\<close>) leave no trace in what
  is recorded and are left out. The library is taken to return from every call and to
  print only where the model says so; opening a file for writing is taken to succeed.
\<close>

subsection \<open>Values and observable state\<close>

text \<open>\<open>std::size_t\<close> on the LP64 targets of the library: 64 bits, arithmetic wraps.\<close>

type_synonym size_t = "64 word"

text \<open>
  Modelled from the spec: the library's \<open>PlannerStatus\<close> is not part of the file. The
  spec distinguishes success, approximate success and every other outcome ("no solution
  found"); the conversion to \<open>bool\<close> tested by \<open>if (stat)\<close> holds for the first two.
\<close>

datatype PlannerStatus = EXACT_SOLUTION | APPROXIMATE_SOLUTION | NO_SOLUTION

definition status_bool :: "PlannerStatus \<Rightarrow> bool" where
  "status_bool stat = (stat = EXACT_SOLUTION \<or> stat = APPROXIMATE_SOLUTION)"

text \<open>
  What is streamed with \<open><<\<close>: a string literal of the program or \<open>argv[0]\<close> (\<open>Str\<close>), text
  produced by the library (\<open>Ext\<close>), a \<open>double\<close> (\<open>Dbl\<close>), an unsigned count (\<open>UInt\<close>), or the
  transposed vector view of a state, a row of doubles (\<open>Row\<close>). The type \<open>'d\<close> stands for
  \<open>double\<close>; its zero, order and addition are parameters, so nothing is assumed about
  rounding or NaN.
\<close>

datatype 'd item = Str string | Ext string | Dbl 'd | UInt nat | Row "'d list"

record 'd world =
  cout :: "'d item list"
  files :: "(string \<times> 'd item list) list"
  solved :: "'d list"

definition init_world :: "'d world" where
  "init_world = \<lparr>cout = [], files = [], solved = []\<rparr>"

text \<open>
  How the process ends: \<open>return n\<close> from \<open>main\<close>, \<open>exit(n)\<close>, or undefined behaviour
  (a null pointer dereferenced, a vector read out of range).
\<close>

datatype outcome = Return int | Exit int | Undefined

datatype ub = OutOfRange | EmptyVector

subsection \<open>The library, as parameters\<close>

text \<open>
  \<open>'c\<close> constraints, \<open>'sp\<close> state spaces (atlas or projected), \<open>'pl\<close> planners, \<open>'s\<close> states.
  A function that returns a pointer returns an option, \<open>None\<close> for the null pointer.
  \<open>parseProblem\<close> gives the constraint and the start and goal vectors \<open>x\<close> and \<open>y\<close>;
  \<open>elapsed\<close> is the processor time around \<open>solve\<close> in seconds; \<open>approxGoalDistance\<close> is the
  entry "approx goal distance REAL" of the planner data's properties, if there is one.
\<close>

record ('c, 'sp, 'pl, 's, 'd) env =
  printProblems :: string
  printPlanners :: string
  parseProblem :: "string \<Rightarrow> 'c option \<times> 'd list \<times> 'd list"
  newAtlasStateSpace :: "'c \<Rightarrow> 'sp option"
  newProjectedStateSpace :: "'c \<Rightarrow> 'sp option"
  parsePlanner :: "string \<Rightarrow> 'sp \<Rightarrow> 'pl option"
  atof :: "string \<Rightarrow> 'd"
  dzero :: 'd
  dle :: "'d \<Rightarrow> 'd \<Rightarrow> bool"
  dadd :: "'d \<Rightarrow> 'd \<Rightarrow> 'd"
  solve :: "'pl \<Rightarrow> 'd \<Rightarrow> PlannerStatus"
  elapsed :: "'pl \<Rightarrow> 'd"
  getSolutionPath :: "'pl \<Rightarrow> 's list"
  dumpPath :: "'sp \<Rightarrow> 's list \<Rightarrow> string"
  traverseManifold :: "'sp \<Rightarrow> 's \<Rightarrow> 's \<Rightarrow> 's list"
  equalStates :: "'sp \<Rightarrow> 's \<Rightarrow> 's \<Rightarrow> bool"
  distance :: "'sp \<Rightarrow> 's \<Rightarrow> 's \<Rightarrow> 'd"
  constVectorView :: "'s \<Rightarrow> 'd list"
  approxGoalDistance :: "'pl \<Rightarrow> string option"
  getChartCount :: "'sp \<Rightarrow> nat"
  dumpMesh :: "'sp \<Rightarrow> string"
  dumpGraph :: "'sp \<Rightarrow> 'pl \<Rightarrow> string"
  estimateFrontierPercent :: "'sp \<Rightarrow> 'd"

subsection \<open>Streams and vectors\<close>

definition put :: "'d item list \<Rightarrow> 'd world \<Rightarrow> 'd world" where
  "put xs w = w\<lparr>cout := cout w @ xs\<rparr>"

text \<open>An \<open>std::ofstream\<close> opened on \<open>name\<close>, written with \<open>content\<close> and closed.\<close>

definition write_file :: "string \<Rightarrow> 'd item list \<Rightarrow> 'd world \<Rightarrow> 'd world" where
  "write_file name content w = w\<lparr>files := files w @ [(name, content)]\<rparr>"

text \<open>\<open>v.size()\<close> and \<open>v[i]\<close> of a \<open>std::vector\<close>; reading out of range is undefined.\<close>

definition vsize :: "'a list \<Rightarrow> size_t" where
  "vsize v = of_nat (length v)"

definition at :: "'a list \<Rightarrow> nat \<Rightarrow> 'a option" where
  "at v i = (if i < length v then Some (v ! i) else None)"

subsection \<open>\<open>usage\<close> (lines 40 to 46)\<close>

text \<open>Prints and calls \<open>exit(0)\<close>: the caller does not continue.\<close>

definition usage :: "('c, 'sp, 'pl, 's, 'd) env \<Rightarrow> string \<Rightarrow> 'd world \<Rightarrow> outcome \<times> 'd world" where
  "usage env progname w =
     (Exit 0,
      put [Str ''Usage: '', Str progname, Str '' <problem> <planner> <timelimit> <-c?>\<newline>'',
           Ext (printProblems env), Ext (printPlanners env)] w)"

subsection \<open>Writing the path (lines 144 to 181 and 279 to 310)\<close>

text \<open>
  The inner loop, \<open>for (i = 1; i < stateList.size(); i++)\<close>: the row of \<open>stateList[i]\<close>
  goes to \<open>animFile\<close>, the distance from \<open>stateList[i - 1]\<close> is added to \<open>length\<close>. The
  counter stays below the size, so it is a natural number here. The pair carried along
  is \<open>length\<close> and what has been streamed to \<open>animFile\<close>.
\<close>

function print_states ::
  "('c, 'sp, 'pl, 's, 'd) env \<Rightarrow> 'sp \<Rightarrow> 's list \<Rightarrow> nat \<Rightarrow> 'd \<times> 'd item list \<Rightarrow> 'd \<times> 'd item list"
where
  "print_states env sp stateList i (len, anim) =
     (if i < length stateList then
        print_states env sp stateList (i + 1)
          (dadd env len (distance env sp (stateList ! (i - 1)) (stateList ! i)),
           anim @ [Row (constVectorView env (stateList ! i)), Str ''\<newline>''])
      else (len, anim))"
  by pat_completeness auto
termination
  by (relation "measure (\<lambda>(env, sp, stateList, i, acc). length stateList - i)") auto

declare print_states.simps [simp del]

text \<open>
  The body of the outer loop for the waypoints \<open>from\<close> and \<open>to\<close>. \<open>front()\<close> and \<open>back()\<close>
  of an empty \<open>stateList\<close> are undefined.
\<close>

definition traverse_segment ::
  "('c, 'sp, 'pl, 's, 'd) env \<Rightarrow> 'sp \<Rightarrow> 's \<Rightarrow> 's \<Rightarrow> 'd \<times> 'd item list \<Rightarrow> ub + 'd \<times> 'd item list"
where
  "traverse_segment env sp from_s to_s acc =
     (let stateList = traverseManifold env sp from_s to_s in
      if stateList = [] then Inl EmptyVector
      else if equalStates env sp (hd stateList) (last stateList) then
        Inr (fst acc, snd acc @ [Row (constVectorView env (hd stateList)), Str ''\<newline>''])
      else Inr (print_states env sp stateList 1 acc))"

text \<open>
  The outer loop, \<open>for (i = 0; i < waypoints.size() - 1; i++)\<close>. The bound is computed
  in \<open>size_t\<close>, where the subtraction wraps; the counter stays below the bound.
\<close>

function write_anim ::
  "('c, 'sp, 'pl, 's, 'd) env \<Rightarrow> 'sp \<Rightarrow> 's list \<Rightarrow> nat \<Rightarrow> 'd \<times> 'd item list \<Rightarrow> ub + 'd \<times> 'd item list"
where
  "write_anim env sp waypoints i acc =
     (if i < unat (vsize waypoints - 1) then
        (case (at waypoints i, at waypoints (i + 1)) of
           (Some from_s, Some to_s) \<Rightarrow>
             (case traverse_segment env sp from_s to_s acc of
                Inl e \<Rightarrow> Inl e
              | Inr acc' \<Rightarrow> write_anim env sp waypoints (i + 1) acc')
         | _ \<Rightarrow> Inl OutOfRange)
      else Inr acc)"
  by pat_completeness auto
termination
  by (relation "measure (\<lambda>(env, sp, waypoints, i, acc). unat (vsize waypoints - 1) - i)") auto

declare write_anim.simps [simp del]

subsection \<open>After \<open>solve\<close> (lines 130 to 197 and 265 to 326)\<close>

text \<open>
  The block \<open>if (stat) ... else ...\<close>, the same in both modes. It ends the run (\<open>Inl\<close>) only
  by undefined behaviour in the loop; \<open>anim.txt\<close> is open by then.
\<close>

definition report ::
  "('c, 'sp, 'pl, 's, 'd) env \<Rightarrow> 'sp \<Rightarrow> 'pl \<Rightarrow> bool \<Rightarrow> 'd list \<Rightarrow> PlannerStatus \<Rightarrow> 'd world
     \<Rightarrow> outcome \<times> 'd world + 'd world"
where
  "report env sp planner verbose x stat w =
     (if status_bool stat then
        (let time = elapsed env planner;
             path = getSolutionPath env planner;
             w1 = (if length x = 3 \<and> verbose
                   then write_file ''path.ply'' [Ext (dumpPath env sp path)] w else w);
             waypoints = path
         in case write_anim env sp waypoints 0 (dzero env, []) of
              Inl e \<Rightarrow> Inl (Undefined, write_file ''anim.txt'' [] w1)
            | Inr (len, anim) \<Rightarrow>
                Inr (put ((if stat = APPROXIMATE_SOLUTION
                           then [Str ''Solution is approximate.\<newline>''] else []) @
                          [Str ''Length: '', Dbl len, Str ''\<newline>'',
                           Str ''Took '', Dbl time, Str '' seconds.\<newline>''])
                       (write_file ''anim.txt'' anim w1)))
      else Inr (put [Str ''No solution found.\<newline>''] w))"

definition print_goal_distance :: "('c, 'sp, 'pl, 's, 'd) env \<Rightarrow> 'pl \<Rightarrow> 'd world \<Rightarrow> 'd world" where
  "print_goal_distance env planner w =
     (case approxGoalDistance env planner of
        Some v \<Rightarrow> put [Str ''Approx goal distance: '', Ext v, Str ''\<newline>''] w
      | None \<Rightarrow> w)"

subsection \<open>The two modes and \<open>main\<close>\<close>

text \<open>
  Lines 76 to 215, entered with \<open>mode == 1\<close>. \<open>constraint->getAmbientSpace()\<close> dereferences
  what \<open>parseProblem\<close> returned. \<open>Inl\<close> is a run that ended here, \<open>Inr\<close> one that goes on to
  \<open>return 0\<close>.
\<close>

definition atlas_mode ::
  "('c, 'sp, 'pl, 's, 'd) env \<Rightarrow> string list \<Rightarrow> bool \<Rightarrow> 'c option \<Rightarrow> 'd list \<Rightarrow> 'd world
     \<Rightarrow> outcome \<times> 'd world + 'd world"
where
  "atlas_mode env argv verbose constraint x w =
     (case constraint of
        None \<Rightarrow> Inl (Undefined, w)
      | Some c \<Rightarrow>
     (case newAtlasStateSpace env c of
        None \<Rightarrow> Inl (usage env (argv ! 0) w)
      | Some atlas \<Rightarrow>
     (case parsePlanner env (argv ! 2) atlas of
        None \<Rightarrow> Inl (usage env (argv ! 0) w)
      | Some planner \<Rightarrow>
     (let runtime_limit = atof env (argv ! 3) in
      if dle env runtime_limit (dzero env) then Inl (usage env (argv ! 0) w)
      else
        let stat = solve env planner runtime_limit;
            w1 = w\<lparr>solved := solved w @ [runtime_limit]\<rparr>
        in case report env atlas planner verbose x stat w1 of
             Inl r \<Rightarrow> Inl r
           | Inr w2 \<Rightarrow>
               let w3 = print_goal_distance env planner w2;
                   w4 = put [Str ''Atlas created '', UInt (getChartCount env atlas),
                             Str '' charts.\<newline>''] w3
               in if length x = 3 \<and> verbose then
                    Inr (put [Dbl (estimateFrontierPercent env atlas), Str ''% open.\<newline>'']
                          (write_file ''graph.ply'' [Ext (dumpGraph env atlas planner)]
                            (write_file ''atlas.ply'' [Ext (dumpMesh env atlas)] w4)))
                  else Inr w4))))"

text \<open>Lines 217 to 336, entered with \<open>mode == 2\<close>.\<close>

definition proj_mode ::
  "('c, 'sp, 'pl, 's, 'd) env \<Rightarrow> string list \<Rightarrow> bool \<Rightarrow> 'c option \<Rightarrow> 'd list \<Rightarrow> 'd world
     \<Rightarrow> outcome \<times> 'd world + 'd world"
where
  "proj_mode env argv verbose constraint x w =
     (case constraint of
        None \<Rightarrow> Inl (Undefined, w)
      | Some c \<Rightarrow>
     (case newProjectedStateSpace env c of
        None \<Rightarrow> Inl (usage env (argv ! 0) w)
      | Some proj \<Rightarrow>
     (case parsePlanner env (argv ! 2) proj of
        None \<Rightarrow> Inl (usage env (argv ! 0) w)
      | Some planner \<Rightarrow>
     (let runtime_limit = atof env (argv ! 3) in
      if dle env runtime_limit (dzero env) then Inl (usage env (argv ! 0) w)
      else
        let stat = solve env planner runtime_limit;
            w1 = w\<lparr>solved := solved w @ [runtime_limit]\<rparr>
        in case report env proj planner verbose x stat w1 of
             Inl r \<Rightarrow> Inl r
           | Inr w2 \<Rightarrow>
               let w3 = print_goal_distance env planner w2
               in if length x = 3 \<and> verbose then
                    Inr (write_file ''graph.ply'' [Ext (dumpGraph env proj planner)] w3)
                  else Inr w3))))"

text \<open>
  \<open>main\<close>, with \<open>argc = length argv\<close>. With no arguments at all \<open>argv[0]\<close> is a null
  pointer, and streaming it is undefined.
\<close>

definition main :: "('c, 'sp, 'pl, 's, 'd) env \<Rightarrow> string list \<Rightarrow> outcome \<times> 'd world" where
  "main env argv =
     (let argc = length argv; w = init_world in
      if argc \<noteq> 5 \<and> argc \<noteq> 6 then
        (case argv of [] \<Rightarrow> (Undefined, w) | progname # _ \<Rightarrow> usage env progname w)
      else if argc = 6 \<and> argv ! 5 \<noteq> ''-v'' then usage env (argv ! 0) w
      else
        let verbose = (argc = 6);
            mode = (if ''-a'' = argv ! 4 then 1 else if ''-p'' = argv ! 4 then 2 else (0::int));
            (constraint, x, y) = parseProblem env (argv ! 1)
        in if mode = 1 then
             (case atlas_mode env argv verbose constraint x w of
                Inl r \<Rightarrow> r | Inr w' \<Rightarrow> (Return 0, w'))
           else if mode = 2 then
             (case proj_mode env argv verbose constraint x w of
                Inl r \<Rightarrow> r | Inr w' \<Rightarrow> (Return 0, w'))
           else (Return 0, w))"

subsection \<open>Notions used in the statements\<close>

text \<open>The lines of \<open>anim.txt\<close> for a list of states: each state is its row followed by a newline.\<close>

definition rows :: "('c, 'sp, 'pl, 's, 'd) env \<Rightarrow> 's list \<Rightarrow> 'd item list" where
  "rows env sts = concat (map (\<lambda>s. [Row (constVectorView env s), Str ''\<newline>'']) sts)"

text \<open>The states of one traversal that the loop body writes.\<close>

definition seg_states :: "('c, 'sp, 'pl, 's, 'd) env \<Rightarrow> 'sp \<Rightarrow> 's list \<Rightarrow> 's list" where
  "seg_states env sp stateList =
     (if equalStates env sp (hd stateList) (last stateList) then [stateList ! 0]
      else map (\<lambda>i. stateList ! i) [1..<length stateList])"

text \<open>The distances of one traversal that the loop body adds to \<open>length\<close>, in the order of the additions.\<close>

definition seg_dists :: "('c, 'sp, 'pl, 's, 'd) env \<Rightarrow> 'sp \<Rightarrow> 's list \<Rightarrow> 'd list" where
  "seg_dists env sp stateList =
     (if equalStates env sp (hd stateList) (last stateList) then []
      else map (\<lambda>i. distance env sp (stateList ! (i - 1)) (stateList ! i)) [1..<length stateList])"

text \<open>The state lists that \<open>traverseManifold\<close> returns for the consecutive pairs of waypoints.\<close>

definition traversals :: "('c, 'sp, 'pl, 's, 'd) env \<Rightarrow> 'sp \<Rightarrow> 's list \<Rightarrow> 's list list" where
  "traversals env sp waypoints =
     map (\<lambda>i. traverseManifold env sp (waypoints ! i) (waypoints ! (i + 1))) [0..<length waypoints - 1]"

text \<open>The loop meets no undefined behaviour: there is a waypoint, the size fits \<open>size_t\<close>, and no traversal comes back empty.\<close>

definition path_ok :: "('c, 'sp, 'pl, 's, 'd) env \<Rightarrow> 'sp \<Rightarrow> 's list \<Rightarrow> bool" where
  "path_ok env sp waypoints \<longleftrightarrow>
     waypoints \<noteq> [] \<and> length waypoints < 2 ^ 64 \<and> [] \<notin> set (traversals env sp waypoints)"

text \<open>The invocation reaches \<open>planner->solve\<close>, in atlas mode or in projection mode, with ambient start vector \<open>x\<close>, state space \<open>sp\<close> and planner \<open>planner\<close>.\<close>

definition plans ::
  "('c, 'sp, 'pl, 's, 'd) env \<Rightarrow> string list \<Rightarrow> bool \<Rightarrow> 'd list \<Rightarrow> 'sp \<Rightarrow> 'pl \<Rightarrow> bool"
where
  "plans env argv atlas x sp planner \<longleftrightarrow>
     (length argv = 5 \<or> length argv = 6 \<and> argv ! 5 = ''-v'') \<and>
     argv ! 4 = (if atlas then ''-a'' else ''-p'') \<and>
     (case parseProblem env (argv ! 1) of
        (None, x', y) \<Rightarrow> False
      | (Some c, x', y) \<Rightarrow>
          x' = x \<and>
          (if atlas then newAtlasStateSpace env c else newProjectedStateSpace env c) = Some sp) \<and>
     parsePlanner env (argv ! 2) sp = Some planner \<and>
     \<not> dle env (atof env (argv ! 3)) (dzero env)"

text \<open>What is printed after the block \<open>if (stat)\<close>.\<close>

definition closing_items ::
  "('c, 'sp, 'pl, 's, 'd) env \<Rightarrow> bool \<Rightarrow> bool \<Rightarrow> 'd list \<Rightarrow> 'sp \<Rightarrow> 'pl \<Rightarrow> 'd item list"
where
  "closing_items env atlas verbose x sp planner =
     (case approxGoalDistance env planner of
        Some v \<Rightarrow> [Str ''Approx goal distance: '', Ext v, Str ''\<newline>'']
      | None \<Rightarrow> []) @
     (if atlas then
        [Str ''Atlas created '', UInt (getChartCount env sp), Str '' charts.\<newline>''] @
        (if length x = 3 \<and> verbose
         then [Dbl (estimateFrontierPercent env sp), Str ''% open.\<newline>''] else [])
      else [])"

text \<open>The files written after the block \<open>if (stat)\<close>.\<close>

definition closing_files ::
  "('c, 'sp, 'pl, 's, 'd) env \<Rightarrow> bool \<Rightarrow> bool \<Rightarrow> 'd list \<Rightarrow> 'sp \<Rightarrow> 'pl
     \<Rightarrow> (string \<times> 'd item list) list"
where
  "closing_files env atlas verbose x sp planner =
     (if length x = 3 \<and> verbose then
        (if atlas then [(''atlas.ply'', [Ext (dumpMesh env sp)])] else []) @
        [(''graph.ply'', [Ext (dumpGraph env sp planner)])]
      else [])"

text \<open>The world after the rest of a mode branch.\<close>

definition finish ::
  "('c, 'sp, 'pl, 's, 'd) env \<Rightarrow> bool \<Rightarrow> bool \<Rightarrow> 'd list \<Rightarrow> 'sp \<Rightarrow> 'pl \<Rightarrow> 'd world \<Rightarrow> 'd world"
where
  "finish env atlas verbose x sp planner w =
     w\<lparr>cout := cout w @ closing_items env atlas verbose x sp planner,
       files := files w @ closing_files env atlas verbose x sp planner\<rparr>"

text \<open>
  Construction fails on a well-formed command line: \<open>parseProblem\<close> gave a constraint, and
  the state space of the chosen mode, or else the planner, came back as a null pointer.
\<close>

definition construction_fails :: "('c, 'sp, 'pl, 's, 'd) env \<Rightarrow> string list \<Rightarrow> bool" where
  "construction_fails env argv \<longleftrightarrow>
     (length argv = 5 \<or> length argv = 6 \<and> argv ! 5 = ''-v'') \<and>
     (case parseProblem env (argv ! 1) of
        (None, x, y) \<Rightarrow> False
      | (Some c, x, y) \<Rightarrow>
          argv ! 4 = ''-a'' \<and>
            (case newAtlasStateSpace env c of
               None \<Rightarrow> True
             | Some sp \<Rightarrow> parsePlanner env (argv ! 2) sp = None) \<or>
          argv ! 4 = ''-p'' \<and>
            (case newProjectedStateSpace env c of
               None \<Rightarrow> True
             | Some sp \<Rightarrow> parsePlanner env (argv ! 2) sp = None))"

text \<open>The items printed right after the literal \<open>key\<close>.\<close>

fun printed_after :: "string \<Rightarrow> 'd item list \<Rightarrow> 'd item list" where
  "printed_after key (a # b # rest) =
     (if a = Str key then b # printed_after key (b # rest) else printed_after key (b # rest))"
| "printed_after key [a] = []"
| "printed_after key [] = []"

subsection \<open>A small library to run the driver on\<close>

text \<open>
  States are integers on a line, a state's vector is \<open>[s, 0, 0]\<close>, and \<open>double\<close> is read as
  \<open>int\<close>. The only problem is \<open>sphere\<close>, of ambient dimension 3. The planner \<open>RRT\<close> solves
  exactly, \<open>EST\<close> approximately and \<open>PRM\<close> not at all; \<open>KPIECE\<close> cannot be built in atlas
  mode. The solution path is \<open>0, 2, 2\<close>; a traversal between different states passes
  through their midpoint, a traversal from a state to itself stays there.
\<close>

definition demo_env :: "(unit, bool, nat, int, int) env" where
  "demo_env =
     \<lparr>printProblems = ''sphere'',
      printPlanners = ''RRT EST PRM KPIECE'',
      parseProblem = (\<lambda>name. if name = ''sphere'' then (Some (), [0, 0, 1], [0, 1, 0])
                               else (None, [], [])),
      newAtlasStateSpace = (\<lambda>c. Some True),
      newProjectedStateSpace = (\<lambda>c. Some False),
      parsePlanner = (\<lambda>name sp. if name = ''RRT'' then Some 0
                                  else if name = ''EST'' then Some 1
                                  else if name = ''PRM'' then Some 2
                                  else if name = ''KPIECE'' \<and> \<not> sp then Some 0
                                  else None),
      atof = (\<lambda>s. if s = ''5'' then 5 else if s = ''-5'' then - 5 else 0),
      dzero = 0,
      dle = (\<le>),
      dadd = (+),
      solve = (\<lambda>pl lim. if pl = 0 then EXACT_SOLUTION
                          else if pl = 1 then APPROXIMATE_SOLUTION else NO_SOLUTION),
      elapsed = (\<lambda>pl. 1),
      getSolutionPath = (\<lambda>pl. [0, 2, 2]),
      dumpPath = (\<lambda>sp path. ''path''),
      traverseManifold = (\<lambda>sp a b. if a = b then [a] else [a, (a + b) div 2, b]),
      equalStates = (\<lambda>sp a b. a = b),
      distance = (\<lambda>sp a b. \<bar>a - b\<bar>),
      constVectorView = (\<lambda>s. [s, 0, 0]),
      approxGoalDistance = (\<lambda>pl. if pl = 1 then Some ''0.5'' else None),
      getChartCount = (\<lambda>sp. 2),
      dumpMesh = (\<lambda>sp. ''mesh''),
      dumpGraph = (\<lambda>sp pl. ''graph''),
      estimateFrontierPercent = (\<lambda>sp. 50)\<rparr>"

section \<open>What the driver computes\<close>

subsection \<open>The small library, field by field\<close>

lemma demo_env_simps [simp]:
  "printProblems demo_env = ''sphere''"
  "printPlanners demo_env = ''RRT EST PRM KPIECE''"
  "parseProblem demo_env name =
     (if name = ''sphere'' then (Some (), [0, 0, 1], [0, 1, 0]) else (None, [], []))"
  "newAtlasStateSpace demo_env c = Some True"
  "newProjectedStateSpace demo_env c = Some False"
  "parsePlanner demo_env name sp =
     (if name = ''RRT'' then Some 0 else if name = ''EST'' then Some 1
      else if name = ''PRM'' then Some 2 else if name = ''KPIECE'' \<and> \<not> sp then Some 0 else None)"
  "atof demo_env str = (if str = ''5'' then 5 else if str = ''-5'' then - 5 else 0)"
  "dzero demo_env = 0"
  "dle demo_env a b = (a \<le> b)"
  "dadd demo_env a b = a + b"
  "solve demo_env pl lim =
     (if pl = 0 then EXACT_SOLUTION else if pl = 1 then APPROXIMATE_SOLUTION else NO_SOLUTION)"
  "elapsed demo_env pl = 1"
  "getSolutionPath demo_env pl = [0, 2, 2]"
  "dumpPath demo_env sp path = ''path''"
  "traverseManifold demo_env sp s t = (if s = t then [s] else [s, (s + t) div 2, t])"
  "equalStates demo_env sp s t = (s = t)"
  "distance demo_env sp s t = \<bar>s - t\<bar>"
  "constVectorView demo_env s = [s, 0, 0]"
  "approxGoalDistance demo_env pl = (if pl = 1 then Some ''0.5'' else None)"
  "getChartCount demo_env sp = 2"
  "dumpMesh demo_env sp = ''mesh''"
  "dumpGraph demo_env sp pl = ''graph''"
  "estimateFrontierPercent demo_env sp = 50"
  by (simp_all add: demo_env_def)

subsection \<open>The loops in closed form\<close>

lemma print_states_eq:
  "print_states env sp sl i (len, anim) =
     (foldl (dadd env) len (map (\<lambda>k. distance env sp (sl ! (k - 1)) (sl ! k)) [i..<length sl]),
      anim @ rows env (map (\<lambda>k. sl ! k) [i..<length sl]))"
proof (induction env sp sl i "(len, anim)" arbitrary: len anim rule: print_states.induct)
  case (1 env sp sl i len anim)
  show ?case
  proof (cases "i < length sl")
    case True
    then have upt: "[i..<length sl] = i # [i + 1..<length sl]"
      by (simp add: upt_conv_Cons)
    show ?thesis
      using True "1.hyps" [OF True] by (subst print_states.simps) (simp add: upt rows_def)
  next
    case False
    then show ?thesis by (subst print_states.simps) (simp add: rows_def)
  qed
qed

lemma traverse_segment_eq:
  assumes "traverseManifold env sp f t = sl" and "sl \<noteq> []"
  shows "traverse_segment env sp f t (len, anim) =
           Inr (foldl (dadd env) len (seg_dists env sp sl), anim @ rows env (seg_states env sp sl))"
  using assms
  by (simp add: traverse_segment_def seg_dists_def seg_states_def print_states_eq rows_def hd_conv_nth)

lemma traverse_segment_Inl:
  "traverse_segment env sp f t acc = Inl e \<Longrightarrow> e = EmptyVector"
  by (auto simp: traverse_segment_def Let_def split: if_splits)

lemma unat_bound:
  assumes "waypoints \<noteq> []" and "length waypoints < 2 ^ 64"
  shows "unat (vsize waypoints - 1) = length waypoints - 1"
proof -
  have u: "unat (vsize waypoints) = length waypoints"
    using assms(2) by (simp add: vsize_def unat_of_nat)
  then have "vsize waypoints \<noteq> 0"
    using assms(1) by auto
  then show ?thesis
    using u by (simp add: unat_minus_one)
qed

lemma bound_less_length:
  assumes "waypoints \<noteq> []"
  shows "unat (vsize waypoints - 1) < length waypoints"
proof (cases "vsize waypoints = 0")
  case True
  then have "unat (vsize waypoints) = 0" by simp
  then have "length waypoints mod 2 ^ 64 = 0"
    by (simp add: vsize_def unat_of_nat)
  then have "2 ^ 64 \<le> length waypoints"
    using assms by (metis length_greater_0_conv mod_less not_le less_irrefl)
  moreover have "unat (vsize waypoints - 1) < 2 ^ 64"
    using unsigned_less [of "vsize waypoints - 1"] by simp
  ultimately show ?thesis by linarith
next
  case False
  then have "unat (vsize waypoints - 1) = unat (vsize waypoints) - 1"
    by (simp add: unat_minus_one)
  moreover have "unat (vsize waypoints) \<le> length waypoints"
    by (simp add: vsize_def unat_of_nat)
  moreover have "0 < unat (vsize waypoints)"
    using False by (simp add: unat_gt_0)
  ultimately show ?thesis by linarith
qed

lemma bound_empty: "unat (vsize ([] :: 'a list) - 1) = 2 ^ 64 - 1"
  by (simp add: vsize_def unsigned_minus_1_eq_mask mask_eq_exp_minus_1)

lemma rows_append: "rows env (a @ b) = rows env a @ rows env b"
  by (simp add: rows_def)

lemma write_anim_from:
  assumes ne: "waypoints \<noteq> []" and small: "length waypoints < 2 ^ 64"
    and tr: "\<forall>k. i \<le> k \<and> k < length waypoints - 1 \<longrightarrow>
               traverseManifold env sp (waypoints ! k) (waypoints ! (k + 1)) \<noteq> []"
  shows "write_anim env sp waypoints i (len, anim) =
           Inr (foldl (dadd env) len (concat (map (seg_dists env sp)
                  (map (\<lambda>k. traverseManifold env sp (waypoints ! k) (waypoints ! (k + 1)))
                     [i..<length waypoints - 1]))),
                anim @ rows env (concat (map (seg_states env sp)
                  (map (\<lambda>k. traverseManifold env sp (waypoints ! k) (waypoints ! (k + 1)))
                     [i..<length waypoints - 1]))))"
  using tr
proof (induction "length waypoints - 1 - i" arbitrary: i len anim)
  case 0
  then have c: "\<not> i < unat (vsize waypoints - 1)"
    using unat_bound [OF ne small] by simp
  have e: "[i..<length waypoints - 1] = []"
    using 0 by simp
  show ?case
    unfolding e by (subst write_anim.simps) (simp add: c rows_def)
next
  case (Suc m)
  let ?sl = "traverseManifold env sp (waypoints ! i) (waypoints ! (i + 1))"
  from Suc.hyps(2) have lt: "i < length waypoints - 1" by simp
  then have cond: "i < unat (vsize waypoints - 1)"
    using unat_bound [OF ne small] by simp
  have ats: "at waypoints i = Some (waypoints ! i)" "at waypoints (i + 1) = Some (waypoints ! (i + 1))"
    using lt by (simp_all add: at_def)
  have sl: "?sl \<noteq> []"
    using Suc.prems lt by simp
  have upt: "[i..<length waypoints - Suc 0] = i # [Suc i..<length waypoints - Suc 0]"
    using lt by (simp add: upt_conv_Cons)
  have m: "m = length waypoints - 1 - (i + 1)"
    using Suc.hyps(2) by simp
  have rest: "\<forall>k. i + 1 \<le> k \<and> k < length waypoints - 1 \<longrightarrow>
               traverseManifold env sp (waypoints ! k) (waypoints ! (k + 1)) \<noteq> []"
    using Suc.prems by simp
  show ?case
    apply (subst write_anim.simps)
    apply (simp only: cond ats if_True prod.case option.case
             traverse_segment_eq [OF refl sl] sum.case Suc.hyps(1) [OF m rest])
    apply (simp add: upt rows_append)
    done
qed

lemma write_anim_ok:
  assumes "path_ok env sp waypoints"
  shows "write_anim env sp waypoints 0 (len, anim) =
           Inr (foldl (dadd env) len (concat (map (seg_dists env sp) (traversals env sp waypoints))),
                anim @ rows env (concat (map (seg_states env sp) (traversals env sp waypoints))))"
proof -
  from assms have ne: "waypoints \<noteq> []" and small: "length waypoints < 2 ^ 64"
    and tr: "[] \<notin> set (traversals env sp waypoints)"
    by (simp_all add: path_ok_def)
  have "\<forall>k. 0 \<le> k \<and> k < length waypoints - 1 \<longrightarrow>
               traverseManifold env sp (waypoints ! k) (waypoints ! (k + 1)) \<noteq> []"
    using tr by (force simp: traversals_def)
  from write_anim_from [OF ne small this] show ?thesis
    by (simp add: traversals_def)
qed

lemma write_anim_in_range:
  assumes ne: "waypoints \<noteq> []"
  shows "write_anim env sp waypoints i acc \<noteq> Inl OutOfRange"
proof (induction "unat (vsize waypoints - 1) - i" arbitrary: i acc)
  case 0
  then have "\<not> i < unat (vsize waypoints - 1)" by simp
  then show ?case by (subst write_anim.simps) simp
next
  case (Suc m)
  from Suc.hyps(2) have cond: "i < unat (vsize waypoints - 1)" by simp
  then have "i + 1 < length waypoints"
    using bound_less_length [OF ne] by simp
  then have ats: "at waypoints i = Some (waypoints ! i)" "at waypoints (Suc i) = Some (waypoints ! Suc i)"
    by (simp_all add: at_def)
  have m: "m = unat (vsize waypoints - 1) - (i + 1)"
    using Suc.hyps(2) by simp
  show ?case
  proof (cases "traverse_segment env sp (waypoints ! i) (waypoints ! (i + 1)) acc")
    case (Inl e)
    then have "e = EmptyVector" by (rule traverse_segment_Inl)
    with Inl show ?thesis
      by (subst write_anim.simps) (simp add: cond ats)
  next
    case (Inr acc')
    with Suc.hyps(1) [OF m, of acc'] show ?thesis
      by (subst write_anim.simps) (simp add: cond ats)
  qed
qed

lemma write_anim_empty: "write_anim env sp [] 0 acc = Inl OutOfRange"
  by (subst write_anim.simps) (simp add: bound_empty at_def)

subsection \<open>Runs that reach the planner\<close>

lemma atlas_mode_plans:
  assumes "newAtlasStateSpace env c = Some sp" and "parsePlanner env (argv ! 2) sp = Some pl"
    and "\<not> dle env (atof env (argv ! 3)) (dzero env)"
  shows "atlas_mode env argv verbose (Some c) x w =
           (case report env sp pl verbose x (solve env pl (atof env (argv ! 3)))
                   (w\<lparr>solved := solved w @ [atof env (argv ! 3)]\<rparr>) of
              Inl r \<Rightarrow> Inl r
            | Inr w2 \<Rightarrow> Inr (finish env True verbose x sp pl w2))"
  using assms
  by (auto simp: atlas_mode_def Let_def finish_def closing_items_def closing_files_def
        print_goal_distance_def put_def write_file_def split: sum.splits option.splits)

lemma proj_mode_plans:
  assumes "newProjectedStateSpace env c = Some sp" and "parsePlanner env (argv ! 2) sp = Some pl"
    and "\<not> dle env (atof env (argv ! 3)) (dzero env)"
  shows "proj_mode env argv verbose (Some c) x w =
           (case report env sp pl verbose x (solve env pl (atof env (argv ! 3)))
                   (w\<lparr>solved := solved w @ [atof env (argv ! 3)]\<rparr>) of
              Inl r \<Rightarrow> Inl r
            | Inr w2 \<Rightarrow> Inr (finish env False verbose x sp pl w2))"
  using assms
  by (auto simp: proj_mode_def Let_def finish_def closing_items_def closing_files_def
        print_goal_distance_def put_def write_file_def split: sum.splits option.splits)

lemma main_plans:
  assumes "plans env argv atlas x sp pl"
  shows "main env argv =
           (case report env sp pl (length argv = 6) x (solve env pl (atof env (argv ! 3)))
                   (init_world\<lparr>solved := [atof env (argv ! 3)]\<rparr>) of
              Inl r \<Rightarrow> r
            | Inr w2 \<Rightarrow> (Return 0, finish env atlas (length argv = 6) x sp pl w2))"
proof -
  from assms obtain c y where pp: "parseProblem env (argv ! 1) = (Some c, x, y)"
    and sp: "(if atlas then newAtlasStateSpace env c else newProjectedStateSpace env c) = Some sp"
    by (auto simp: plans_def split: prod.splits option.splits)
  from assms have args: "length argv = 5 \<or> length argv = 6 \<and> argv ! 5 = ''-v''"
    and mode: "argv ! 4 = (if atlas then ''-a'' else ''-p'')"
    and pl: "parsePlanner env (argv ! 2) sp = Some pl"
    and lim: "\<not> dle env (atof env (argv ! 3)) (dzero env)"
    by (simp_all add: plans_def)
  have sol: "solved (init_world :: 'e world) = []"
    by (simp add: init_world_def)
  from pp have pp': "parseProblem env (argv ! Suc 0) = (Some c, x, y)" by simp
  show ?thesis
  proof (cases atlas)
    case True
    with sp have a: "newAtlasStateSpace env c = Some sp" by simp
    from True mode have m: "argv ! 4 = ''-a''" by simp
    from args show ?thesis
    proof
      assume "length argv = 5"
      then show ?thesis
        by (simp add: main_def Let_def pp' m atlas_mode_plans [OF a pl lim] sol True split: sum.splits)
    next
      assume "length argv = 6 \<and> argv ! 5 = ''-v''"
      then show ?thesis
        by (simp add: main_def Let_def pp' m atlas_mode_plans [OF a pl lim] sol True split: sum.splits)
    qed
  next
    case False
    with sp have a: "newProjectedStateSpace env c = Some sp" by simp
    from False mode have m: "argv ! 4 = ''-p''" by simp
    from args show ?thesis
    proof
      assume "length argv = 5"
      then show ?thesis
        by (simp add: main_def Let_def pp' m proj_mode_plans [OF a pl lim] sol False split: sum.splits)
    next
      assume "length argv = 6 \<and> argv ! 5 = ''-v''"
      then show ?thesis
        by (simp add: main_def Let_def pp' m proj_mode_plans [OF a pl lim] sol False split: sum.splits)
    qed
  qed
qed

lemma report_no_solution:
  "\<not> status_bool stat \<Longrightarrow> report env sp pl verbose x stat w = Inr (put [Str ''No solution found.\<newline>''] w)"
  by (simp add: report_def)

lemma report_solution:
  assumes "status_bool stat" and "path_ok env sp (getSolutionPath env pl)"
  shows "report env sp pl verbose x stat w =
           Inr (w\<lparr>cout := cout w @
                   (if stat = APPROXIMATE_SOLUTION then [Str ''Solution is approximate.\<newline>''] else []) @
                   [Str ''Length: '',
                    Dbl (foldl (dadd env) (dzero env)
                           (concat (map (seg_dists env sp) (traversals env sp (getSolutionPath env pl))))),
                    Str ''\<newline>'', Str ''Took '', Dbl (elapsed env pl), Str '' seconds.\<newline>''],
                  files := files w @
                   (if length x = 3 \<and> verbose
                    then [(''path.ply'', [Ext (dumpPath env sp (getSolutionPath env pl))])] else []) @
                   [(''anim.txt'',
                     rows env (concat (map (seg_states env sp) (traversals env sp (getSolutionPath env pl)))))]\<rparr>)"
  using assms(1)
  by (simp add: report_def Let_def write_anim_ok [OF assms(2)] put_def write_file_def)

lemma main_no_solution:
  assumes "plans env argv atlas x sp pl"
    and "\<not> status_bool (solve env pl (atof env (argv ! 3)))"
  shows "main env argv =
           (Return 0,
            \<lparr>cout = Str ''No solution found.\<newline>'' #
                     closing_items env atlas (length argv = 6) x sp pl,
             files = closing_files env atlas (length argv = 6) x sp pl,
             solved = [atof env (argv ! 3)]\<rparr>)"
  by (simp add: main_plans [OF assms(1)] report_no_solution [OF assms(2)]
        finish_def put_def init_world_def)

lemma main_solution:
  assumes "plans env argv atlas x sp pl"
    and "status_bool (solve env pl (atof env (argv ! 3)))"
    and "path_ok env sp (getSolutionPath env pl)"
  shows "main env argv =
           (Return 0,
            \<lparr>cout =
               (if solve env pl (atof env (argv ! 3)) = APPROXIMATE_SOLUTION
                then [Str ''Solution is approximate.\<newline>''] else []) @
               [Str ''Length: '',
                Dbl (foldl (dadd env) (dzero env)
                       (concat (map (seg_dists env sp) (traversals env sp (getSolutionPath env pl))))),
                Str ''\<newline>'', Str ''Took '', Dbl (elapsed env pl), Str '' seconds.\<newline>''] @
               closing_items env atlas (length argv = 6) x sp pl,
             files =
               (if length x = 3 \<and> length argv = 6
                then [(''path.ply'', [Ext (dumpPath env sp (getSolutionPath env pl))])] else []) @
               [(''anim.txt'',
                 rows env (concat (map (seg_states env sp) (traversals env sp (getSolutionPath env pl)))))] @
               closing_files env atlas (length argv = 6) x sp pl,
             solved = [atof env (argv ! 3)]\<rparr>)"
  by (simp add: main_plans [OF assms(1)] report_solution [OF assms(2,3)]
        finish_def init_world_def)

lemma closing_items_literals:
  "Str ''Usage: '' \<notin> set (closing_items env atlas verbose x sp pl)"
  "Str ''No solution found.\<newline>'' \<notin> set (closing_items env atlas verbose x sp pl)"
  "Str ''Solution is approximate.\<newline>'' \<notin> set (closing_items env atlas verbose x sp pl)"
  "Str ''Length: '' \<notin> set (closing_items env atlas verbose x sp pl)"
  by (auto simp: closing_items_def split: option.splits)

lemma closing_files_names:
  "map fst (closing_files env atlas verbose x sp pl) =
     (if length x = 3 \<and> verbose
      then (if atlas then [''atlas.ply'', ''graph.ply''] else [''graph.ply'']) else [])"
  by (simp add: closing_files_def)

section \<open>The command line\<close>

text \<open>
  Claim C1 asks for the usage message and \<open>exit(0)\<close> whenever the mode is neither \<open>-a\<close>
  nor \<open>-p\<close>. The chain of tests on \<open>mode\<close> has no last \<open>else\<close>, and the code does
  otherwise: with the five arguments \<open>plan sphere RRT 5 -x\<close> the driver returns 0 from
  \<open>main\<close> and has printed nothing, neither the usage message nor anything else, and has
  not planned.
\<close>

theorem unknown_mode_demo_run:
  "main demo_env [''plan'', ''sphere'', ''RRT'', ''5'', ''-x''] =
     (Return 0, \<lparr>cout = [], files = [], solved = []\<rparr>)"
  by (simp add: main_def init_world_def)

text \<open>
  Claim C4: when the number of arguments is not 5 or 6, or the sixth argument is not
  \<open>-v\<close>, or the state space or the planner comes back as a null pointer, the driver
  prints the usage message and ends the process with \<open>exit(0)\<close>; nothing else is
  printed, no file is written and \<open>solve\<close> is not called. The program name \<open>argv[0]\<close> is
  taken to be there, as in every hosted invocation.
\<close>

theorem malformed_invocation_prints_usage:
  assumes "argv \<noteq> []"
    and "length argv \<noteq> 5 \<and> length argv \<noteq> 6 \<or>
         length argv = 6 \<and> argv ! 5 \<noteq> ''-v'' \<or>
         construction_fails env argv"
  shows "main env argv =
           (Exit 0,
            \<lparr>cout = [Str ''Usage: '', Str (argv ! 0),
                     Str '' <problem> <planner> <timelimit> <-c?>\<newline>'',
                     Ext (printProblems env), Ext (printPlanners env)],
             files = [], solved = []\<rparr>)"
proof -
  let ?u = "(Exit 0,
            \<lparr>cout = [Str ''Usage: '', Str (argv ! 0),
                     Str '' <problem> <planner> <timelimit> <-c?>\<newline>'',
                     Ext (printProblems env), Ext (printPlanners env)],
             files = [], solved = []\<rparr>)"
  have u: "usage env (argv ! 0) init_world = ?u"
    by (simp add: usage_def put_def init_world_def)
  from assms(1) obtain progname rest where argv: "argv = progname # rest"
    by (cases argv) auto
  from assms(2) consider
      (count) "length argv \<noteq> 5 \<and> length argv \<noteq> 6"
    | (verbose) "length argv = 6 \<and> argv ! 5 \<noteq> ''-v''"
    | (construct) "construction_fails env argv"
    by blast
  then show ?thesis
  proof cases
    case count
    then have "main env argv = usage env progname init_world"
      by (simp add: main_def Let_def argv)
    with u argv show ?thesis by simp
  next
    case verbose
    then have "main env argv = usage env (argv ! 0) init_world"
      by (simp add: main_def Let_def)
    with u show ?thesis by simp
  next
    case construct
    then obtain c x y where pp: "parseProblem env (argv ! Suc 0) = (Some c, x, y)"
      by (auto simp: construction_fails_def split: prod.splits option.splits)
    from construct have args: "\<not> (length argv \<noteq> 5 \<and> length argv \<noteq> 6)"
      "\<not> (length argv = 6 \<and> argv ! 5 \<noteq> ''-v'')"
      by (auto simp: construction_fails_def)
    from construct pp have
      "argv ! 4 = ''-a'' \<and>
         (case newAtlasStateSpace env c of
            None \<Rightarrow> True | Some sp \<Rightarrow> parsePlanner env (argv ! 2) sp = None) \<or>
       argv ! 4 = ''-p'' \<and>
         (case newProjectedStateSpace env c of
            None \<Rightarrow> True | Some sp \<Rightarrow> parsePlanner env (argv ! 2) sp = None)"
      by (simp add: construction_fails_def)
    then have "main env argv = usage env (argv ! 0) init_world"
    proof
      assume a: "argv ! 4 = ''-a'' \<and>
         (case newAtlasStateSpace env c of
            None \<Rightarrow> True | Some sp \<Rightarrow> parsePlanner env (argv ! 2) sp = None)"
      then have "atlas_mode env argv (length argv = 6) (Some c) x init_world =
                   Inl (usage env (argv ! 0) init_world)"
        by (auto simp: atlas_mode_def split: option.splits)
      with a args show ?thesis
        by (auto simp: main_def Let_def pp)
    next
      assume p: "argv ! 4 = ''-p'' \<and>
         (case newProjectedStateSpace env c of
            None \<Rightarrow> True | Some sp \<Rightarrow> parsePlanner env (argv ! 2) sp = None)"
      then have "proj_mode env argv (length argv = 6) (Some c) x init_world =
                   Inl (usage env (argv ! 0) init_world)"
        by (auto simp: proj_mode_def split: option.splits)
      with p args show ?thesis
        by (auto simp: main_def Let_def pp)
    qed
    with u show ?thesis by simp
  qed
qed

text \<open>
  Claim C4 on three runs: too few arguments, a sixth argument that is not \<open>-v\<close>, and a
  planner that cannot be built.
\<close>

theorem malformed_invocation_prints_usage_witness:
  "main demo_env [''plan'', ''sphere'', ''RRT''] =
     (Exit 0,
      \<lparr>cout = [Str ''Usage: '', Str ''plan'',
               Str '' <problem> <planner> <timelimit> <-c?>\<newline>'',
               Ext ''sphere'', Ext ''RRT EST PRM KPIECE''],
       files = [], solved = []\<rparr>) \<and>
   main demo_env [''plan'', ''sphere'', ''RRT'', ''5'', ''-a'', ''-w''] =
     (Exit 0,
      \<lparr>cout = [Str ''Usage: '', Str ''plan'',
               Str '' <problem> <planner> <timelimit> <-c?>\<newline>'',
               Ext ''sphere'', Ext ''RRT EST PRM KPIECE''],
       files = [], solved = []\<rparr>) \<and>
   main demo_env [''plan'', ''sphere'', ''KPIECE'', ''5'', ''-a''] =
     (Exit 0,
      \<lparr>cout = [Str ''Usage: '', Str ''plan'',
               Str '' <problem> <planner> <timelimit> <-c?>\<newline>'',
               Ext ''sphere'', Ext ''RRT EST PRM KPIECE''],
       files = [], solved = []\<rparr>)"
proof -
  have "construction_fails demo_env [''plan'', ''sphere'', ''KPIECE'', ''5'', ''-a'']"
    by (simp add: construction_fails_def)
  then show ?thesis
    using malformed_invocation_prints_usage [of "[''plan'', ''sphere'', ''RRT'']" demo_env]
      malformed_invocation_prints_usage
        [of "[''plan'', ''sphere'', ''RRT'', ''5'', ''-a'', ''-w'']" demo_env]
      malformed_invocation_prints_usage
        [of "[''plan'', ''sphere'', ''KPIECE'', ''5'', ''-a'']" demo_env]
    by simp
qed

text \<open>
  Claim C8: with 5 arguments, or 6 ending in \<open>-v\<close>, and a mode that is neither \<open>-a\<close> nor
  \<open>-p\<close>, the driver parses the problem, then plans nothing, writes no file, prints
  nothing and returns 0.
\<close>

theorem unrecognized_mode_returns_silently:
  assumes "length argv = 5 \<or> length argv = 6 \<and> argv ! 5 = ''-v''"
    and "argv ! 4 \<noteq> ''-a''" and "argv ! 4 \<noteq> ''-p''"
  shows "main env argv = (Return 0, \<lparr>cout = [], files = [], solved = []\<rparr>)"
  using assms
  by (auto simp: main_def init_world_def Let_def split: prod.splits)

text \<open>Claim C8 on a run with six arguments and the mode \<open>-b\<close>.\<close>

theorem unrecognized_mode_returns_silently_witness:
  "main demo_env [''plan'', ''sphere'', ''RRT'', ''5'', ''-b'', ''-v''] =
     (Return 0, \<lparr>cout = [], files = [], solved = []\<rparr>)"
  by (rule unrecognized_mode_returns_silently) simp_all






section \<open>The outcome of planning\<close>

text \<open>
  Claim C6: finding no solution is a normal outcome, apart from success and from
  approximate success. In a run that reaches \<open>solve\<close>: when the status is not a solution,
  the driver prints "No solution found." first, prints neither the usage message nor
  the lines of a solution, and returns 0; when the status is an approximate solution
  (and the path is written without undefined behaviour) it prints "Solution is
  approximate." and then the length, as for an exact solution, which prints the length
  without that line; neither prints "No solution found.".
\<close>

theorem no_solution_is_a_normal_outcome:
  assumes "plans env argv atlas x sp pl"
  shows "(\<not> status_bool (solve env pl (atof env (argv ! 3))) \<longrightarrow>
            fst (main env argv) = Return 0 \<and>
            take 1 (cout (snd (main env argv))) = [Str ''No solution found.\<newline>''] \<and>
            Str ''Usage: '' \<notin> set (cout (snd (main env argv))) \<and>
            Str ''Solution is approximate.\<newline>'' \<notin> set (cout (snd (main env argv))) \<and>
            Str ''Length: '' \<notin> set (cout (snd (main env argv)))) \<and>
         (solve env pl (atof env (argv ! 3)) = APPROXIMATE_SOLUTION \<and>
          path_ok env sp (getSolutionPath env pl) \<longrightarrow>
            fst (main env argv) = Return 0 \<and>
            take 2 (cout (snd (main env argv))) =
              [Str ''Solution is approximate.\<newline>'', Str ''Length: ''] \<and>
            Str ''Usage: '' \<notin> set (cout (snd (main env argv))) \<and>
            Str ''No solution found.\<newline>'' \<notin> set (cout (snd (main env argv)))) \<and>
         (solve env pl (atof env (argv ! 3)) = EXACT_SOLUTION \<and>
          path_ok env sp (getSolutionPath env pl) \<longrightarrow>
            fst (main env argv) = Return 0 \<and>
            take 1 (cout (snd (main env argv))) = [Str ''Length: ''] \<and>
            Str ''Usage: '' \<notin> set (cout (snd (main env argv))) \<and>
            Str ''Solution is approximate.\<newline>'' \<notin> set (cout (snd (main env argv))) \<and>
            Str ''No solution found.\<newline>'' \<notin> set (cout (snd (main env argv))))"
proof (intro conjI impI)
  assume "\<not> status_bool (solve env pl (atof env (argv ! 3)))"
  note m = main_no_solution [OF assms this]
  show "fst (main env argv) = Return 0"
    by (simp add: m)
  show "take 1 (cout (snd (main env argv))) = [Str ''No solution found.\<newline>'']"
    by (simp add: m)
  show "Str ''Usage: '' \<notin> set (cout (snd (main env argv)))"
    by (simp add: m closing_items_literals)
  show "Str ''Solution is approximate.\<newline>'' \<notin> set (cout (snd (main env argv)))"
    by (simp add: m closing_items_literals)
  show "Str ''Length: '' \<notin> set (cout (snd (main env argv)))"
    by (simp add: m closing_items_literals)
next
  assume a: "solve env pl (atof env (argv ! 3)) = APPROXIMATE_SOLUTION \<and>
             path_ok env sp (getSolutionPath env pl)"
  then have "status_bool (solve env pl (atof env (argv ! 3)))"
    by (simp add: status_bool_def)
  note m = main_solution [OF assms this conjunct2 [OF a]]
  show "fst (main env argv) = Return 0"
    by (simp add: m)
  show "take 2 (cout (snd (main env argv))) =
          [Str ''Solution is approximate.\<newline>'', Str ''Length: '']"
    using a by (simp add: m)
  show "Str ''Usage: '' \<notin> set (cout (snd (main env argv)))"
    by (simp add: m closing_items_literals)
  show "Str ''No solution found.\<newline>'' \<notin> set (cout (snd (main env argv)))"
    by (simp add: m closing_items_literals)
next
  assume a: "solve env pl (atof env (argv ! 3)) = EXACT_SOLUTION \<and>
             path_ok env sp (getSolutionPath env pl)"
  then have "status_bool (solve env pl (atof env (argv ! 3)))"
    by (simp add: status_bool_def)
  note m = main_solution [OF assms this conjunct2 [OF a]]
  show "fst (main env argv) = Return 0"
    by (simp add: m)
  show "take 1 (cout (snd (main env argv))) = [Str ''Length: '']"
    using a by (simp add: m)
  show "Str ''Usage: '' \<notin> set (cout (snd (main env argv)))"
    by (simp add: m closing_items_literals)
  show "Str ''Solution is approximate.\<newline>'' \<notin> set (cout (snd (main env argv)))"
    using a by (simp add: m closing_items_literals)
  show "Str ''No solution found.\<newline>'' \<notin> set (cout (snd (main env argv)))"
    by (simp add: m closing_items_literals)
qed

text \<open>
  Claim C6 on two runs in atlas mode: the planner \<open>PRM\<close> finds no solution, the planner
  \<open>EST\<close> an approximate one.
\<close>

theorem no_solution_is_a_normal_outcome_witness:
  "fst (main demo_env [''plan'', ''sphere'', ''PRM'', ''5'', ''-a'']) = Return 0 \<and>
   take 1 (cout (snd (main demo_env [''plan'', ''sphere'', ''PRM'', ''5'', ''-a'']))) =
     [Str ''No solution found.\<newline>''] \<and>
   fst (main demo_env [''plan'', ''sphere'', ''EST'', ''5'', ''-a'']) = Return 0 \<and>
   take 2 (cout (snd (main demo_env [''plan'', ''sphere'', ''EST'', ''5'', ''-a'']))) =
     [Str ''Solution is approximate.\<newline>'', Str ''Length: '']"
proof -
  have p: "plans demo_env [''plan'', ''sphere'', ''PRM'', ''5'', ''-a''] True [0, 0, 1] True 2"
    by (simp add: plans_def)
  have e: "plans demo_env [''plan'', ''sphere'', ''EST'', ''5'', ''-a''] True [0, 0, 1] True 1"
    by (simp add: plans_def)
  have ok: "path_ok demo_env True (getSolutionPath demo_env 1)"
    by (simp add: path_ok_def traversals_def)
  show ?thesis
    using no_solution_is_a_normal_outcome [OF p] no_solution_is_a_normal_outcome [OF e] ok
    by (simp add: status_bool_def)
qed

section \<open>The files written\<close>

text \<open>
  Claim C2 fails as stated: \<open>anim.txt\<close> is not written in every run. In atlas mode with
  the planner \<open>PRM\<close>, which finds no solution, the driver returns 0 and has written no
  file at all.
\<close>

theorem anim_not_written_without_solution:
  "main demo_env [''plan'', ''sphere'', ''PRM'', ''5'', ''-a''] =
     (Return 0,
      \<lparr>cout = [Str ''No solution found.\<newline>'',
               Str ''Atlas created '', UInt 2, Str '' charts.\<newline>''],
       files = [], solved = [5]\<rparr>)"
proof -
  have p: "plans demo_env [''plan'', ''sphere'', ''PRM'', ''5'', ''-a''] True [0, 0, 1] True 2"
    by (simp add: plans_def)
  show ?thesis
    by (simp add: main_no_solution [OF p] status_bool_def closing_items_def closing_files_def)
qed

text \<open>
  Claim C2, amended: in every run that reaches \<open>solve\<close>, in either mode and whatever the
  verbosity and the ambient dimension, \<open>anim.txt\<close> is written exactly when the status is
  an exact or approximate solution. It is then written once and holds state vectors,
  one per line (given that the path is written without undefined behaviour).
\<close>

theorem anim_written_exactly_when_solved:
  assumes "plans env argv atlas x sp pl"
  shows "(status_bool (solve env pl (atof env (argv ! 3))) \<and>
          path_ok env sp (getSolutionPath env pl) \<longrightarrow>
            (\<exists>sts. filter (\<lambda>f. fst f = ''anim.txt'') (files (snd (main env argv))) =
                     [(''anim.txt'', rows env sts)])) \<and>
         (\<not> status_bool (solve env pl (atof env (argv ! 3))) \<longrightarrow>
            filter (\<lambda>f. fst f = ''anim.txt'') (files (snd (main env argv))) = [])"
proof (intro conjI impI)
  assume a: "status_bool (solve env pl (atof env (argv ! 3))) \<and>
             path_ok env sp (getSolutionPath env pl)"
  note m = main_solution [OF assms conjunct1 [OF a] conjunct2 [OF a]]
  have "filter (\<lambda>f. fst f = ''anim.txt'') (files (snd (main env argv))) =
          [(''anim.txt'', rows env (concat (map (seg_states env sp)
                                      (traversals env sp (getSolutionPath env pl)))))]"
    by (simp add: m closing_files_def)
  then show "\<exists>sts. filter (\<lambda>f. fst f = ''anim.txt'') (files (snd (main env argv))) =
                     [(''anim.txt'', rows env sts)]"
    by blast
next
  assume "\<not> status_bool (solve env pl (atof env (argv ! 3)))"
  note m = main_no_solution [OF assms this]
  show "filter (\<lambda>f. fst f = ''anim.txt'') (files (snd (main env argv))) = []"
    by (simp add: m closing_files_def)
qed

text \<open>
  Claim C2, amended, on a run in projection mode without \<open>-v\<close>: the planner \<open>RRT\<close> solves,
  and \<open>anim.txt\<close> is the one file written, with three lines.
\<close>

theorem anim_written_exactly_when_solved_witness:
  "files (snd (main demo_env [''plan'', ''sphere'', ''RRT'', ''5'', ''-p''])) =
     [(''anim.txt'',
       [Row [1, 0, 0], Str ''\<newline>'', Row [2, 0, 0], Str ''\<newline>'',
        Row [2, 0, 0], Str ''\<newline>''])] \<and>
   (\<exists>sts. filter (\<lambda>f. fst f = ''anim.txt'')
            (files (snd (main demo_env [''plan'', ''sphere'', ''RRT'', ''5'', ''-p'']))) =
          [(''anim.txt'', rows demo_env sts)])"
proof -
  have p: "plans demo_env [''plan'', ''sphere'', ''RRT'', ''5'', ''-p''] False [0, 0, 1] False 0"
    by (simp add: plans_def)
  have ok: "path_ok demo_env False (getSolutionPath demo_env 0)"
    by (simp add: path_ok_def traversals_def)
  have s: "status_bool (solve demo_env 0 (atof demo_env ([''plan'', ''sphere'', ''RRT'', ''5'', ''-p''] ! 3)))"
    by (simp add: status_bool_def)
  have "files (snd (main demo_env [''plan'', ''sphere'', ''RRT'', ''5'', ''-p''])) =
     [(''anim.txt'',
       [Row [1, 0, 0], Str ''\<newline>'', Row [2, 0, 0], Str ''\<newline>'',
        Row [2, 0, 0], Str ''\<newline>''])]"
    by (simp add: main_solution [OF p s ok] closing_files_def rows_def seg_states_def
          traversals_def)
  moreover have "\<exists>sts. filter (\<lambda>f. fst f = ''anim.txt'')
            (files (snd (main demo_env [''plan'', ''sphere'', ''RRT'', ''5'', ''-p'']))) =
          [(''anim.txt'', rows demo_env sts)]"
    using anim_written_exactly_when_solved [OF p] s ok by blast
  ultimately show ?thesis by blast
qed

text \<open>
  Claim C3 fails as stated: in projection mode no \<open>atlas.ply\<close> is written. With \<open>-p -v\<close>,
  ambient dimension 3 and a planner that solves, the files are \<open>path.ply\<close>, \<open>anim.txt\<close>
  and \<open>graph.ply\<close>.
\<close>

theorem projection_mode_writes_no_atlas:
  "length (fst (snd (parseProblem demo_env ''sphere''))) = 3 \<and>
   map fst (files (snd (main demo_env [''plan'', ''sphere'', ''RRT'', ''5'', ''-p'', ''-v'']))) =
     [''path.ply'', ''anim.txt'', ''graph.ply'']"
proof -
  have p: "plans demo_env [''plan'', ''sphere'', ''RRT'', ''5'', ''-p'', ''-v''] False [0, 0, 1] False 0"
    by (simp add: plans_def)
  have ok: "path_ok demo_env False (getSolutionPath demo_env 0)"
    by (simp add: path_ok_def traversals_def)
  have s: "status_bool (solve demo_env 0
             (atof demo_env ([''plan'', ''sphere'', ''RRT'', ''5'', ''-p'', ''-v''] ! 3)))"
    by (simp add: status_bool_def)
  show ?thesis
    by (simp add: main_solution [OF p s ok] closing_files_def)
qed

text \<open>
  Claim C3, amended: in a run with \<open>-v\<close> and ambient dimension 3 that reaches \<open>solve\<close>,
  \<open>graph.ply\<close> is written in both modes, \<open>atlas.ply\<close> in atlas mode only, and \<open>path.ply\<close>
  (with \<open>anim.txt\<close>) exactly when the status is an exact or approximate solution. These
  are all the files, in the order of writing.
\<close>

theorem verbose_files:
  assumes "plans env argv atlas x sp pl" and "length argv = 6" and "length x = 3"
  shows "(status_bool (solve env pl (atof env (argv ! 3))) \<and>
          path_ok env sp (getSolutionPath env pl) \<longrightarrow>
            map fst (files (snd (main env argv))) =
              [''path.ply'', ''anim.txt''] @
              (if atlas then [''atlas.ply'', ''graph.ply''] else [''graph.ply''])) \<and>
         (\<not> status_bool (solve env pl (atof env (argv ! 3))) \<longrightarrow>
            map fst (files (snd (main env argv))) =
              (if atlas then [''atlas.ply'', ''graph.ply''] else [''graph.ply'']))"
proof (intro conjI impI)
  assume a: "status_bool (solve env pl (atof env (argv ! 3))) \<and>
             path_ok env sp (getSolutionPath env pl)"
  note m = main_solution [OF assms(1) conjunct1 [OF a] conjunct2 [OF a]]
  show "map fst (files (snd (main env argv))) =
          [''path.ply'', ''anim.txt''] @
          (if atlas then [''atlas.ply'', ''graph.ply''] else [''graph.ply''])"
    using assms(2,3) by (simp add: m closing_files_names)
next
  assume "\<not> status_bool (solve env pl (atof env (argv ! 3)))"
  note m = main_no_solution [OF assms(1) this]
  show "map fst (files (snd (main env argv))) =
          (if atlas then [''atlas.ply'', ''graph.ply''] else [''graph.ply''])"
    using assms(2,3) by (simp add: m closing_files_names)
qed

text \<open>
  Claim C3, amended, on two runs in atlas mode with \<open>-v\<close>: \<open>RRT\<close> solves and all four
  files are written; \<open>PRM\<close> does not, and \<open>path.ply\<close> is missing.
\<close>

theorem verbose_files_witness:
  "map fst (files (snd (main demo_env [''plan'', ''sphere'', ''RRT'', ''5'', ''-a'', ''-v'']))) =
     [''path.ply'', ''anim.txt'', ''atlas.ply'', ''graph.ply''] \<and>
   map fst (files (snd (main demo_env [''plan'', ''sphere'', ''PRM'', ''5'', ''-a'', ''-v'']))) =
     [''atlas.ply'', ''graph.ply'']"
proof -
  have r: "plans demo_env [''plan'', ''sphere'', ''RRT'', ''5'', ''-a'', ''-v''] True [0, 0, 1] True 0"
    by (simp add: plans_def)
  have p: "plans demo_env [''plan'', ''sphere'', ''PRM'', ''5'', ''-a'', ''-v''] True [0, 0, 1] True 2"
    by (simp add: plans_def)
  have ok: "path_ok demo_env True (getSolutionPath demo_env 0)"
    by (simp add: path_ok_def traversals_def)
  show ?thesis
    using verbose_files [OF r] verbose_files [OF p] ok
    by (simp add: status_bool_def)
qed

text \<open>
  Claim C7 fails in its last part: a waypoint shared by two segments can be written
  twice. The path \<open>0, 2, 2\<close> has the segments from 0 to 2 and from 2 to 2. The first
  writes the states 1 and 2; the traversal of the second is the single state 2, its first
  and last states are equal, and the state 2 is written again.
\<close>

theorem shared_waypoint_written_twice:
  "getSolutionPath demo_env 0 = [0, 2, 2] \<and>
   traverseManifold demo_env True 0 2 = [0, 1, 2] \<and>
   traverseManifold demo_env True 2 2 = [2] \<and>
   files (snd (main demo_env [''plan'', ''sphere'', ''RRT'', ''5'', ''-a''])) =
     [(''anim.txt'',
       [Row (constVectorView demo_env 1), Str ''\<newline>'',
        Row (constVectorView demo_env 2), Str ''\<newline>'',
        Row (constVectorView demo_env 2), Str ''\<newline>''])]"
proof -
  have p: "plans demo_env [''plan'', ''sphere'', ''RRT'', ''5'', ''-a''] True [0, 0, 1] True 0"
    by (simp add: plans_def)
  have ok: "path_ok demo_env True (getSolutionPath demo_env 0)"
    by (simp add: path_ok_def traversals_def)
  have s: "status_bool (solve demo_env 0
             (atof demo_env ([''plan'', ''sphere'', ''RRT'', ''5'', ''-a''] ! 3)))"
    by (simp add: status_bool_def)
  show ?thesis
    by (simp add: main_solution [OF p s ok] closing_files_def rows_def seg_states_def
          traversals_def)
qed

text \<open>
  Claim C7, amended: \<open>anim.txt\<close> is written once, and each of its lines is the vector of
  one state. Segment by segment, in the order of the waypoints, the states written are
  \<open>stateList[1]\<close> to the last one when the first and last states of the traversal
  differ, so that such a segment does not write its own \<open>stateList[0]\<close>, and the single
  state \<open>stateList[0]\<close> when they are equal, also when the segment before has written
  that waypoint.
\<close>

theorem anim_states_per_segment:
  assumes "plans env argv atlas x sp pl"
    and "status_bool (solve env pl (atof env (argv ! 3)))"
    and "path_ok env sp (getSolutionPath env pl)"
  shows "filter (\<lambda>f. fst f = ''anim.txt'') (files (snd (main env argv))) =
           [(''anim.txt'',
             concat (map (\<lambda>s. [Row (constVectorView env s), Str ''\<newline>''])
               (concat (map (\<lambda>stateList.
                              if equalStates env sp (hd stateList) (last stateList)
                              then [stateList ! 0]
                              else map (\<lambda>i. stateList ! i) [1..<length stateList])
                         (traversals env sp (getSolutionPath env pl))))))]"
proof -
  have "seg_states env sp = (\<lambda>stateList.
          if equalStates env sp (hd stateList) (last stateList)
          then [stateList ! 0]
          else map (\<lambda>i. stateList ! i) [1..<length stateList])"
    by (rule ext) (simp add: seg_states_def)
  then show ?thesis
    by (simp add: main_solution [OF assms] closing_files_def rows_def)
qed

text \<open>Claim C7, amended, on the run in atlas mode with the path \<open>0, 2, 2\<close>.\<close>

theorem anim_states_per_segment_witness:
  "filter (\<lambda>f. fst f = ''anim.txt'')
     (files (snd (main demo_env [''plan'', ''sphere'', ''RRT'', ''5'', ''-a'', ''-v'']))) =
     [(''anim.txt'',
       [Row [1, 0, 0], Str ''\<newline>'', Row [2, 0, 0], Str ''\<newline>'',
        Row [2, 0, 0], Str ''\<newline>''])]"
proof -
  have p: "plans demo_env [''plan'', ''sphere'', ''RRT'', ''5'', ''-a'', ''-v''] True [0, 0, 1] True 0"
    by (simp add: plans_def)
  have ok: "path_ok demo_env True (getSolutionPath demo_env 0)"
    by (simp add: path_ok_def traversals_def)
  have s: "status_bool (solve demo_env 0
             (atof demo_env ([''plan'', ''sphere'', ''RRT'', ''5'', ''-a'', ''-v''] ! 3)))"
    by (simp add: status_bool_def)
  show ?thesis
    using anim_states_per_segment [OF p s ok] by (simp add: traversals_def)
qed

section \<open>The bound of the loop over the waypoints\<close>

text \<open>
  Claim C9: the loop runs its counter from 0 while it is below \<open>waypoints.size() - 1\<close>,
  computed in \<open>size_t\<close>. The reads \<open>waypoints[i]\<close> and \<open>waypoints[i + 1]\<close> are all in range
  exactly when there is a waypoint: the loop ends by a read out of range if and only if
  the list is empty, and every counter value below the bound has both reads in range if
  and only if the list is not empty. For the empty list the subtraction wraps to
  \<open>2^64 - 1\<close> and the first read, \<open>waypoints[0]\<close>, is out of range.
\<close>

theorem waypoint_reads_in_range_iff_nonempty:
  "(write_anim env sp waypoints 0 acc = Inl OutOfRange \<longleftrightarrow> waypoints = []) \<and>
   ((\<forall>i < unat (vsize waypoints - 1). at waypoints i \<noteq> None \<and> at waypoints (i + 1) \<noteq> None)
      \<longleftrightarrow> waypoints \<noteq> []) \<and>
   (waypoints = [] \<longrightarrow>
      unat (vsize waypoints - 1) = 2 ^ 64 - 1 \<and> at waypoints 0 = None)"
proof (intro conjI)
  show "write_anim env sp waypoints 0 acc = Inl OutOfRange \<longleftrightarrow> waypoints = []"
    using write_anim_in_range [of waypoints env sp 0 acc] write_anim_empty [of env sp acc]
    by auto
  show "(\<forall>i < unat (vsize waypoints - 1). at waypoints i \<noteq> None \<and> at waypoints (i + 1) \<noteq> None)
          \<longleftrightarrow> waypoints \<noteq> []"
  proof
    assume all: "\<forall>i < unat (vsize waypoints - 1).
                   at waypoints i \<noteq> None \<and> at waypoints (i + 1) \<noteq> None"
    show "waypoints \<noteq> []"
    proof
      assume e: "waypoints = []"
      then have "(0::nat) < unat (vsize waypoints - 1)"
        by (simp add: bound_empty)
      with all have "at waypoints 0 \<noteq> None" by blast
      with e show False by (simp add: at_def)
    qed
  next
    assume ne: "waypoints \<noteq> []"
    show "\<forall>i < unat (vsize waypoints - 1). at waypoints i \<noteq> None \<and> at waypoints (i + 1) \<noteq> None"
      using bound_less_length [OF ne] by (auto simp: at_def)
  qed
  show "waypoints = [] \<longrightarrow> unat (vsize waypoints - 1) = 2 ^ 64 - 1 \<and> at waypoints 0 = None"
    by (auto simp: bound_empty at_def)
qed

text \<open>Claim C9 on the path \<open>0, 2, 2\<close> and on the empty path.\<close>

theorem waypoint_reads_in_range_iff_nonempty_witness:
  "write_anim demo_env True [0, 2, 2] 0 (0, []) \<noteq> Inl OutOfRange \<and>
   write_anim demo_env True [] 0 (0, []) = Inl OutOfRange \<and>
   unat (vsize ([] :: int list) - 1) = 2 ^ 64 - 1"
  using waypoint_reads_in_range_iff_nonempty [of demo_env True "[0, 2, 2]" "(0, [])"]
    waypoint_reads_in_range_iff_nonempty [of demo_env True "[]" "(0, [])"]
  by simp

section \<open>The printed length\<close>

lemma printed_after_absent: "Str key \<notin> set xs \<Longrightarrow> printed_after key xs = []"
  by (induction key xs rule: printed_after.induct) auto

lemma foldl_dadd_grows:
  assumes mono: "\<forall>a d. dle env (dzero env) a \<and> dle env (dzero env) d \<longrightarrow> dle env a (dadd env a d)"
    and trans: "\<forall>a b c. dle env a b \<and> dle env b c \<longrightarrow> dle env a c"
    and nonneg: "\<forall>d \<in> set ds. dle env (dzero env) d"
    and start: "dle env (dzero env) a"
  shows "(foldl (dadd env) a ds = a \<or> dle env a (foldl (dadd env) a ds)) \<and>
         dle env (dzero env) (foldl (dadd env) a ds)"
  using nonneg start
proof (induction ds arbitrary: a)
  case Nil
  then show ?case by simp
next
  case (Cons d ds)
  from Cons.prems have d: "dle env (dzero env) d" by simp
  with Cons.prems(2) mono have step: "dle env a (dadd env a d)" by blast
  with Cons.prems(2) trans have pos: "dle env (dzero env) (dadd env a d)" by blast
  from Cons.prems(1) have "\<forall>d \<in> set ds. dle env (dzero env) d" by simp
  from Cons.IH [OF this pos]
  have ih: "foldl (dadd env) (dadd env a d) ds = dadd env a d \<or>
            dle env (dadd env a d) (foldl (dadd env) (dadd env a d) ds)"
    and ih0: "dle env (dzero env) (foldl (dadd env) (dadd env a d) ds)"
    by blast+
  from ih step trans have "dle env a (foldl (dadd env) (dadd env a d) ds)"
    by (metis (full_types))
  with ih0 show ?case by simp
qed

text \<open>
  Claim C10: the length printed after "Length: " is the sum that starts at 0 and adds,
  waypoint pair after waypoint pair, the distances between the consecutive states of
  the traversal, \<open>distance(stateList[i - 1], stateList[i])\<close> for \<open>i\<close> from 1, in this order;
  a traversal whose first and last states are equal adds nothing. One turn of the loop
  leaves the length as it is when the first and last states are equal. And the length
  never decreases in a turn of the loop, and stays at or above 0, when distances are at
  least 0 and the order and addition of \<open>double\<close> satisfy: \<open>0 \<le> 0\<close>; \<open>a \<le> a + d\<close> for \<open>a\<close>
  and \<open>d\<close> at least 0; transitivity.
\<close>

theorem printed_length_is_sum_of_distances:
  assumes "plans env argv atlas x sp pl"
    and "status_bool (solve env pl (atof env (argv ! 3)))"
    and "path_ok env sp (getSolutionPath env pl)"
  shows "printed_after ''Length: '' (cout (snd (main env argv))) =
           [Dbl (foldl (dadd env) (dzero env)
              (concat (map (\<lambda>stateList.
                             if equalStates env sp (hd stateList) (last stateList) then []
                             else map (\<lambda>i. distance env sp (stateList ! (i - 1)) (stateList ! i))
                                    [1..<length stateList])
                        (traversals env sp (getSolutionPath env pl)))))] \<and>
         (\<forall>s t len anim.
            traverseManifold env sp s t \<noteq> [] \<and>
            equalStates env sp (hd (traverseManifold env sp s t)) (last (traverseManifold env sp s t))
            \<longrightarrow> (\<exists>anim'. traverse_segment env sp s t (len, anim) = Inr (len, anim'))) \<and>
         (dle env (dzero env) (dzero env) \<and>
          (\<forall>a d. dle env (dzero env) a \<and> dle env (dzero env) d \<longrightarrow> dle env a (dadd env a d)) \<and>
          (\<forall>a b c. dle env a b \<and> dle env b c \<longrightarrow> dle env a c) \<and>
          (\<forall>s t. dle env (dzero env) (distance env sp s t))
          \<longrightarrow> (\<forall>s t len anim len' anim'.
                 dle env (dzero env) len \<and>
                 traverse_segment env sp s t (len, anim) = Inr (len', anim')
                 \<longrightarrow> (len' = len \<or> dle env len len') \<and> dle env (dzero env) len'))"
proof (intro conjI allI impI)
  have sd: "seg_dists env sp = (\<lambda>stateList.
              if equalStates env sp (hd stateList) (last stateList) then []
              else map (\<lambda>i. distance env sp (stateList ! (i - 1)) (stateList ! i))
                     [1..<length stateList])"
    by (rule ext) (simp add: seg_dists_def)
  have tail: "printed_after ''Length: ''
                (Str '' seconds.\<newline>'' # closing_items env atlas (length argv = 6) x sp pl) = []"
    by (rule printed_after_absent) (simp add: closing_items_literals)
  show "printed_after ''Length: '' (cout (snd (main env argv))) =
           [Dbl (foldl (dadd env) (dzero env)
              (concat (map (\<lambda>stateList.
                             if equalStates env sp (hd stateList) (last stateList) then []
                             else map (\<lambda>i. distance env sp (stateList ! (i - 1)) (stateList ! i))
                                    [1..<length stateList])
                        (traversals env sp (getSolutionPath env pl)))))]"
    unfolding sd [symmetric]
    by (simp add: main_solution [OF assms] tail)
next
  fix s t len anim
  assume a: "traverseManifold env sp s t \<noteq> [] \<and>
       equalStates env sp (hd (traverseManifold env sp s t)) (last (traverseManifold env sp s t))"
  then show "\<exists>anim'. traverse_segment env sp s t (len, anim) = Inr (len, anim')"
    by (simp add: traverse_segment_def)
next
  fix s t len anim len' anim'
  assume laws: "dle env (dzero env) (dzero env) \<and>
          (\<forall>a d. dle env (dzero env) a \<and> dle env (dzero env) d \<longrightarrow> dle env a (dadd env a d)) \<and>
          (\<forall>a b c. dle env a b \<and> dle env b c \<longrightarrow> dle env a c) \<and>
          (\<forall>s t. dle env (dzero env) (distance env sp s t))"
    and run: "dle env (dzero env) len \<and>
              traverse_segment env sp s t (len, anim) = Inr (len', anim')"
  let ?sl = "traverseManifold env sp s t"
  from run have ne: "?sl \<noteq> []"
    by (auto simp: traverse_segment_def Let_def split: if_splits)
  from run traverse_segment_eq [OF refl ne, of len anim]
  have len': "len' = foldl (dadd env) len (seg_dists env sp ?sl)"
    by simp
  from laws have nn: "\<forall>s t. dle env (dzero env) (distance env sp s t)"
    by blast
  have nonneg: "\<forall>d \<in> set (seg_dists env sp ?sl). dle env (dzero env) d"
    using nn by (auto simp: seg_dists_def)
  from laws have mono: "\<forall>a d. dle env (dzero env) a \<and> dle env (dzero env) d \<longrightarrow> dle env a (dadd env a d)"
    and trans: "\<forall>a b c. dle env a b \<and> dle env b c \<longrightarrow> dle env a c"
    by blast+
  from run have start: "dle env (dzero env) len" by simp
  from foldl_dadd_grows [OF mono trans nonneg start] len'
  show "len' = len \<or> dle env len len'" and "dle env (dzero env) len'"
    by simp_all
qed

text \<open>
  Claim C10 on the run in atlas mode with the path \<open>0, 2, 2\<close>: the distances are 1 and 1
  on the first segment and none on the second, and the length printed is 2.
\<close>

theorem printed_length_is_sum_of_distances_witness:
  "printed_after ''Length: ''
     (cout (snd (main demo_env [''plan'', ''sphere'', ''RRT'', ''5'', ''-a'']))) = [Dbl 2] \<and>
   traverse_segment demo_env True 0 2 (0, []) =
     Inr (2, [Row [1, 0, 0], Str ''\<newline>'', Row [2, 0, 0], Str ''\<newline>'']) \<and>
   traverse_segment demo_env True 2 2 (2, []) = Inr (2, [Row [2, 0, 0], Str ''\<newline>''])"
proof -
  have p: "plans demo_env [''plan'', ''sphere'', ''RRT'', ''5'', ''-a''] True [0, 0, 1] True 0"
    by (simp add: plans_def)
  have ok: "path_ok demo_env True (getSolutionPath demo_env 0)"
    by (simp add: path_ok_def traversals_def)
  have s: "status_bool (solve demo_env 0
             (atof demo_env ([''plan'', ''sphere'', ''RRT'', ''5'', ''-a''] ! 3)))"
    by (simp add: status_bool_def)
  have "printed_after ''Length: ''
     (cout (snd (main demo_env [''plan'', ''sphere'', ''RRT'', ''5'', ''-a'']))) = [Dbl 2]"
    using printed_length_is_sum_of_distances [OF p s ok] by (simp add: traversals_def)
  moreover have "traverse_segment demo_env True 0 2 (0, []) =
     Inr (2, [Row [1, 0, 0], Str ''\<newline>'', Row [2, 0, 0], Str ''\<newline>''])"
    by (simp add: traverse_segment_eq [of demo_env True 0 2 "[0, 1, 2]"] seg_dists_def
          seg_states_def rows_def)
  moreover have "traverse_segment demo_env True 2 2 (2, []) = Inr (2, [Row [2, 0, 0], Str ''\<newline>''])"
    by (simp add: traverse_segment_def)
  ultimately show ?thesis by blast
qed

end
